theory Spec2Isabelle
  imports
    Main
    "HOL-Library.Sublist"
    "HOL-Library.Multiset"
    "HOL-Library.Char_ord"
    "HOL-Library.List_Lexorder"
begin

section \<open>Data model of facelist.go\<close>

text \<open>
  The structs of the \<^verbatim>\<open>type (...)\<close> block, field by field. Go strings are byte
  sequences, so they are \<^typ>\<open>string\<close> here; their order (\<^verbatim>\<open><\<close> on Go strings) is the
  lexicographic order on bytes, which is the order of \<^typ>\<open>char list\<close>.
  The field \<^verbatim>\<open>Id\<close> of \<^verbatim>\<open>User\<close> is \<open>Id_u\<close>: \<open>Id\<close> is the identity relation of HOL.
\<close>

record config =
  EmailFilter :: string
  SlackApiToken :: string
  SlackTeam :: string

record Profile =
  FirstName :: string
  LastName :: string
  RealName :: string
  Title :: string
  Image :: string
  Phone :: string
  Email :: string
  Status :: string

record User =
  Name :: string
  Id_u :: string
  TeamId :: string
  IsBot :: bool
  Deleted :: bool
  Profile :: Profile

record UserList =
  SlackTeam :: string
  Members :: "User list"

section \<open>Library functions the handler calls\<close>

subsection \<open>strings.HasSuffix and strings.ToLower\<close>

text \<open>
  \<^verbatim>\<open>HasSuffix(s, suffix)\<close> is
  \<^verbatim>\<open>len(s) >= len(suffix) && s[len(s)-len(suffix):] == suffix\<close>.
\<close>

definition HasSuffix :: "string \<Rightarrow> string \<Rightarrow> bool" where
  "HasSuffix s suf =
     (length suf \<le> length s \<and> drop (length s - length suf) s = suf)"

text \<open>
  \<^verbatim>\<open>ToLower\<close> maps the bytes \<^verbatim>\<open>'A'..'Z'\<close> of a string of ASCII bytes to
  \<^verbatim>\<open>'a'..'z'\<close>. A string with a byte of 128 or more is decoded as UTF-8 and mapped
  through the Unicode case tables, which are not part of this development: that
  mapping is the parameter \<open>unicode_lower\<close>.
\<close>

definition ascii_lower :: "char \<Rightarrow> char" where
  "ascii_lower c =
     (if CHR ''A'' \<le> c \<and> c \<le> CHR ''Z'' then char_of (of_char c + (32::nat)) else c)"

definition ToLower :: "(string \<Rightarrow> string) \<Rightarrow> string \<Rightarrow> string" where
  "ToLower unicode_lower s =
     (if list_all (\<lambda>c. of_char c < (128::nat)) s then map ascii_lower s
      else unicode_lower s)"

subsection \<open>sort.SliceStable\<close>

text \<open>
  \<^verbatim>\<open>sort.SliceStable(x, less)\<close> sorts \<^verbatim>\<open>x\<close> by \<^verbatim>\<open>less\<close> and keeps elements that
  \<^verbatim>\<open>less\<close> does not order in their original order. Its building block is the
  insertion sort of package sort,
  \<^verbatim>\<open>for i := a+1; i < b; i++ { for j := i; j > a && less(j, j-1); j-- { swap(j, j-1) } }\<close>:
  the elements are taken from left to right, and each one moves left past the
  elements it is strictly less than. On the sorted prefix that is the position
  in front of the first element it is less than.
\<close>

fun insertStable :: "('a \<Rightarrow> 'a \<Rightarrow> bool) \<Rightarrow> 'a \<Rightarrow> 'a list \<Rightarrow> 'a list" where
  "insertStable lt x [] = [x]"
| "insertStable lt x (y # ys) =
     (if lt x y then x # y # ys else y # insertStable lt x ys)"

definition SliceStable :: "('a \<Rightarrow> 'a \<Rightarrow> bool) \<Rightarrow> 'a list \<Rightarrow> 'a list" where
  "SliceStable lt xs = foldl (\<lambda>acc x. insertStable lt x acc) [] xs"

subsection \<open>http.ResponseWriter and http.Error\<close>

text \<open>
  What the handler can observe and change of the response: the status line, which
  is written once (\<open>None\<close> until then), and the body written so far.
  \<^verbatim>\<open>WriteHeader\<close> after the status has been written changes nothing; \<^verbatim>\<open>Write\<close>
  before \<^verbatim>\<open>WriteHeader\<close> writes the status 200 first. \<^verbatim>\<open>http.Error(w, msg, code)\<close>
  is \<^verbatim>\<open>w.WriteHeader(code); fmt.Fprintln(w, msg)\<close>.
\<close>

record ResponseWriter =
  status :: "nat option"
  body :: string

definition newResponseWriter :: ResponseWriter where
  "newResponseWriter = \<lparr>status = None, body = []\<rparr>"

definition WriteHeader :: "ResponseWriter \<Rightarrow> nat \<Rightarrow> ResponseWriter" where
  "WriteHeader w code = (case status w of None \<Rightarrow> w\<lparr>status := Some code\<rparr> | Some _ \<Rightarrow> w)"

definition Write :: "ResponseWriter \<Rightarrow> string \<Rightarrow> ResponseWriter" where
  "Write w bytes = (let w' = WriteHeader w 200 in w'\<lparr>body := body w' @ bytes\<rparr>)"

definition http_Error :: "ResponseWriter \<Rightarrow> string \<Rightarrow> nat \<Rightarrow> ResponseWriter" where
  "http_Error w msg code = Write (WriteHeader w code) (msg @ [CHR 0x0A])"

definition StatusInternalServerError :: nat where
  "StatusInternalServerError = 500"

subsection \<open>encoding/json on the replies of the scenarios\<close>

text \<open>
  \<^verbatim>\<open>json.Unmarshal(data, &userlist)\<close> is a parameter of the handler below. For the
  scenarios it is made concrete on a fragment of JSON: a reply is not JSON at
  all, or an array at top level, or an object with or without the key
  \<^verbatim>\<open>members\<close>, whose members are objects that carry some of the keys of the struct
  tags. The decoder stores what the text carries and leaves the rest of the
  variable as it is:
  \<^item> a key that is absent leaves its field; so does an absent \<^verbatim>\<open>members\<close>;
  \<^item> the array of \<^verbatim>\<open>members\<close> is decoded into the slice the variable holds: the
    element at an index that the old slice has is decoded into the old element,
    field by field, an element beyond the old length into a zero \<^verbatim>\<open>User\<close>, and
    the slice gets the length of the array;
  \<^item> an array at top level is an error, as is text that is not JSON.
\<close>

record ProfileDoc =
  first_name_key :: "string option"
  last_name_key :: "string option"
  real_name_key :: "string option"
  title_key :: "string option"
  image_192_key :: "string option"
  phone_key :: "string option"
  email_key :: "string option"
  status_text_key :: "string option"

record UserDoc =
  name_key :: "string option"
  id_key :: "string option"
  team_id_key :: "string option"
  is_bot_key :: "bool option"
  deleted_key :: "bool option"
  profile_key :: "ProfileDoc option"

datatype document =
    NotJSON string string
  | TopLevelArray
  | TopLevelObject "UserDoc list option"

definition present :: "'a option \<Rightarrow> 'a \<Rightarrow> 'a" where
  "present k old = (case k of None \<Rightarrow> old | Some v \<Rightarrow> v)"

definition storeProfile :: "ProfileDoc \<Rightarrow> Profile \<Rightarrow> Profile" where
  "storeProfile d old =
     \<lparr>FirstName = present (first_name_key d) (FirstName old),
      LastName = present (last_name_key d) (LastName old),
      RealName = present (real_name_key d) (RealName old),
      Title = present (title_key d) (Title old),
      Image = present (image_192_key d) (Image old),
      Phone = present (phone_key d) (Phone old),
      Email = present (email_key d) (Email old),
      Status = present (status_text_key d) (Status old)\<rparr>"

definition storeUser :: "UserDoc \<Rightarrow> User \<Rightarrow> User" where
  "storeUser d old =
     \<lparr>Name = present (name_key d) (Name old),
      Id_u = present (id_key d) (Id_u old),
      TeamId = present (team_id_key d) (TeamId old),
      IsBot = present (is_bot_key d) (IsBot old),
      Deleted = present (deleted_key d) (Deleted old),
      Profile = (case profile_key d of None \<Rightarrow> Profile old
                 | Some p \<Rightarrow> storeProfile p (Profile old))\<rparr>"

definition zeroUser :: User where
  "zeroUser =
     \<lparr>Name = [], Id_u = [], TeamId = [], IsBot = False, Deleted = False,
      Profile = \<lparr>FirstName = [], LastName = [], RealName = [], Title = [],
                 Image = [], Phone = [], Email = [], Status = []\<rparr>\<rparr>"

fun storeMembers :: "UserDoc list \<Rightarrow> User list \<Rightarrow> User list" where
  "storeMembers [] old = []"
| "storeMembers (d # ds) [] = storeUser d zeroUser # storeMembers ds []"
| "storeMembers (d # ds) (u # us) = storeUser d u # storeMembers ds us"

fun store :: "document \<Rightarrow> UserList \<Rightarrow> string + UserList" where
  "store (NotJSON bytes err) v = Inl err"
| "store TopLevelArray v =
     Inl ''json: cannot unmarshal array into Go value of type main.UserList''"
| "store (TopLevelObject None) v = Inr v"
| "store (TopLevelObject (Some ds)) v = Inr (v\<lparr>Members := storeMembers ds (Members v)\<rparr>)"

text \<open>
  The text of a document. The strings of the scenarios have no character that
  JSON escapes.
\<close>

definition quoted :: "string \<Rightarrow> string" where
  "quoted s = [CHR 0x22] @ s @ [CHR 0x22]"

definition boolText :: "bool \<Rightarrow> string" where
  "boolText b = (if b then ''true'' else ''false'')"

fun commas :: "string list \<Rightarrow> string" where
  "commas [] = []"
| "commas [x] = x"
| "commas (x # y # zs) = x @ '','' @ commas (y # zs)"

definition keyed :: "string \<Rightarrow> ('a \<Rightarrow> string) \<Rightarrow> 'a option \<Rightarrow> string list" where
  "keyed k text v = (case v of None \<Rightarrow> [] | Some x \<Rightarrow> [quoted k @ '':'' @ text x])"

definition profileText :: "ProfileDoc \<Rightarrow> string" where
  "profileText p =
     ''{'' @ commas (keyed ''first_name'' quoted (first_name_key p) @
                     keyed ''last_name'' quoted (last_name_key p) @
                     keyed ''real_name'' quoted (real_name_key p) @
                     keyed ''title'' quoted (title_key p) @
                     keyed ''image_192'' quoted (image_192_key p) @
                     keyed ''phone'' quoted (phone_key p) @
                     keyed ''email'' quoted (email_key p) @
                     keyed ''status_text'' quoted (status_text_key p)) @ ''}''"

definition userText :: "UserDoc \<Rightarrow> string" where
  "userText d =
     ''{'' @ commas (keyed ''name'' quoted (name_key d) @
                     keyed ''id'' quoted (id_key d) @
                     keyed ''team_id'' quoted (team_id_key d) @
                     keyed ''is_bot'' boolText (is_bot_key d) @
                     keyed ''deleted'' boolText (deleted_key d) @
                     keyed ''profile'' profileText (profile_key d)) @ ''}''"

fun documentText :: "document \<Rightarrow> string" where
  "documentText (NotJSON bytes err) = bytes"
| "documentText TopLevelArray = ''[]''"
| "documentText (TopLevelObject None) = ''{}''"
| "documentText (TopLevelObject (Some ds)) =
     ''{'' @ quoted ''members'' @ '':['' @ commas (map userText ds) @ '']}''"

text \<open>
  The decoder of a scenario knows the documents upstream can send in it. On the
  text of one of them it does what \<^const>\<open>store\<close> says; other texts are outside
  its domain.
\<close>

definition decode_docs :: "document list \<Rightarrow> string \<Rightarrow> UserList \<Rightarrow> string + UserList" where
  "decode_docs docs data v =
     (case find (\<lambda>d. documentText d = data) docs of
        None \<Rightarrow> Inl ''decode_docs: text outside the scenario''
      | Some d \<Rightarrow> store d v)"

text \<open>The object that carries every key of a member, and the reply that lists members so.\<close>

definition docOf :: "User \<Rightarrow> UserDoc" where
  "docOf u =
     \<lparr>name_key = Some (Name u), id_key = Some (Id_u u), team_id_key = Some (TeamId u),
      is_bot_key = Some (IsBot u), deleted_key = Some (Deleted u),
      profile_key = Some
        \<lparr>first_name_key = Some (FirstName (Profile u)), last_name_key = Some (LastName (Profile u)),
         real_name_key = Some (RealName (Profile u)), title_key = Some (Title (Profile u)),
         image_192_key = Some (Image (Profile u)), phone_key = Some (Phone (Profile u)),
         email_key = Some (Email (Profile u)), status_text_key = Some (Status (Profile u))\<rparr>\<rparr>"

definition listing :: "User list \<Rightarrow> document" where
  "listing us = TopLevelObject (Some (map docOf us))"

subsection \<open>The outside world of one request\<close>

text \<open>
  The upstream reply as \<^verbatim>\<open>client.Get\<close> returns it: the status code of the reply,
  and what \<^verbatim>\<open>ioutil.ReadAll(resp.Body)\<close> returns, the bytes read and the read
  error if there is one.
\<close>

record Response =
  StatusCode :: nat
  BodyBytes :: string
  BodyErr :: "string option"

definition ReadAll :: "Response \<Rightarrow> string \<times> string option" where
  "ReadAll resp = (BodyBytes resp, BodyErr resp)"

text \<open>
  The calls whose results the handler does not compute itself:
  \<^item> \<open>client_Get url\<close>: the error text (\<^verbatim>\<open>err.Error()\<close>) or the reply;
  \<^item> \<open>json_Unmarshal data v\<close>: \<^verbatim>\<open>json.Unmarshal(data, &v)\<close>, the error text or the value
    of \<^verbatim>\<open>v\<close> afterwards. The old value of \<^verbatim>\<open>v\<close> is an argument, since the decoder
    writes through the pointer to a variable that already holds one;
  \<^item> \<open>template_Execute data\<close>: \<^verbatim>\<open>IndexTemplate.Execute(w, data)\<close>. The template sees
    \<^verbatim>\<open>w\<close> as an \<^verbatim>\<open>io.Writer\<close>, so all it does to \<^verbatim>\<open>w\<close> is a sequence of \<^verbatim>\<open>Write\<close>
    calls: the result is the chunks written, in order, and how execution ends. It
    returns \<^verbatim>\<open>nil\<close>, or it returns an error, or it panics with a run-time error,
    which \<^verbatim>\<open>Execute\<close> does not recover (a \<^verbatim>\<open>nil\<close> writer panics at the first
    \<^verbatim>\<open>Write\<close>);
  \<^item> \<open>unicode_lower\<close>: the Unicode part of \<^verbatim>\<open>strings.ToLower\<close>.
\<close>

datatype exec_end = Completed | Failed string | Panicked string

record world =
  client_Get :: "string \<Rightarrow> string + Response"
  json_Unmarshal :: "string \<Rightarrow> UserList \<Rightarrow> string + UserList"
  template_Execute :: "UserList \<Rightarrow> string list \<times> exec_end"
  unicode_lower :: "string \<Rightarrow> string"

section \<open>indexHandler\<close>

text \<open>
  The calls the handler makes on the outside world, in order, and how a request
  ends: the handler returns, with the response and the package variable
  \<^verbatim>\<open>userlist\<close> as it leaves them, or \<^verbatim>\<open>log.Fatal\<close> ends the process with
  \<^verbatim>\<open>os.Exit(1)\<close>, or a panic of the template leaves the handler, which has no
  \<^verbatim>\<open>recover\<close>.
\<close>

datatype call =
    CallGet string
  | CallReadAll
  | CallUnmarshal string
  | CallExecute UserList
  | CallError string nat
  | CallPrintf string
  | CallFatal string

datatype outcome =
    Return ResponseWriter UserList "call list"
  | Exit nat ResponseWriter "call list"
  | Panic ResponseWriter UserList "call list"

fun calls :: "outcome \<Rightarrow> call list" where
  "calls (Return w ul cs) = cs"
| "calls (Exit code w cs) = cs"
| "calls (Panic w ul cs) = cs"

text \<open>
  The response of a request that the handler completes, and what has been
  written to the response writer however the request ends.
\<close>

fun response :: "outcome \<Rightarrow> ResponseWriter option" where
  "response (Return w ul cs) = Some w"
| "response (Exit code w cs) = None"
| "response (Panic w ul cs) = None"

fun written :: "outcome \<Rightarrow> ResponseWriter" where
  "written (Return w ul cs) = w"
| "written (Exit code w cs) = w"
| "written (Panic w ul cs) = w"

fun userlistAfter :: "outcome \<Rightarrow> UserList option" where
  "userlistAfter (Return w ul cs) = Some ul"
| "userlistAfter (Exit code w cs) = None"
| "userlistAfter (Panic w ul cs) = Some ul"

text \<open>The URL of line 181.\<close>

definition users_list_url :: "config \<Rightarrow> string" where
  "users_list_url cfg = ''https://slack.com/api/users.list?token='' @ SlackApiToken cfg"

text \<open>The condition of line 198.\<close>

definition keep :: "config \<Rightarrow> User \<Rightarrow> bool" where
  "keep cfg user =
     (\<not> Deleted user \<and> \<not> IsBot user \<and> HasSuffix (Email (Profile user)) (EmailFilter cfg))"

text \<open>
  The loop of lines 195 to 201, over the members still to visit, with
  \<^verbatim>\<open>filteredUsers\<close> as the accumulator (\<^verbatim>\<open>append\<close> adds at the end).
\<close>

fun filterLoop :: "config \<Rightarrow> User list \<Rightarrow> User list \<Rightarrow> User list" where
  "filterLoop cfg [] filteredUsers = filteredUsers"
| "filterLoop cfg (user # rest) filteredUsers =
     filterLoop cfg rest (if keep cfg user then filteredUsers @ [user] else filteredUsers)"

text \<open>The closure of line 205.\<close>

definition sortKey :: "world \<Rightarrow> User \<Rightarrow> string" where
  "sortKey env user = ToLower (unicode_lower env) (RealName (Profile user))"

definition lessRealName :: "world \<Rightarrow> User \<Rightarrow> User \<Rightarrow> bool" where
  "lessRealName env a b = (sortKey env a < sortKey env b)"

definition oops_message :: string where
  "oops_message = ''Oops. That's embarrassing. Please try again later.''"

text \<open>
  Lines 195 to 208: what the decoded list becomes before it is handed to the
  template, and what line 208 stores in the package variable.
\<close>

definition templateData :: "world \<Rightarrow> config \<Rightarrow> UserList \<Rightarrow> UserList" where
  "templateData env cfg decoded =
     (let filteredUsers = filterLoop cfg (Members decoded) [];
          sortedUsers = SliceStable (lessRealName env) filteredUsers
      in decoded\<lparr>Members := sortedUsers\<rparr>)"

definition indexHandler :: "world \<Rightarrow> config \<Rightarrow> ResponseWriter \<Rightarrow> UserList \<Rightarrow> outcome" where
  "indexHandler env cfg w userlist =
     (let url = users_list_url cfg in
      case client_Get env url of
        Inl err \<Rightarrow>
          Return (http_Error w err StatusInternalServerError) userlist
            [CallGet url, CallError err StatusInternalServerError]
      | Inr resp \<Rightarrow>
          let data = fst (ReadAll resp) in
          (case json_Unmarshal env data userlist of
             Inl err \<Rightarrow>
               Exit 1 w [CallGet url, CallReadAll, CallUnmarshal data, CallFatal err]
           | Inr decoded \<Rightarrow>
               let userlist' = templateData env cfg decoded;
                   executed = template_Execute env userlist';
                   w' = foldl Write w (fst executed);
                   cs = [CallGet url, CallReadAll, CallUnmarshal data, CallExecute userlist']
               in (case snd executed of
                     Completed \<Rightarrow> Return w' userlist' cs
                   | Failed err \<Rightarrow>
                       Return (http_Error w' oops_message StatusInternalServerError) userlist'
                         (cs @ [CallPrintf (''Failed to execute index template: '' @ err @ [CHR 0x0A]),
                                CallError oops_message StatusInternalServerError])
                   | Panicked v \<Rightarrow> Panic w' userlist' cs)))"

section \<open>Scenarios\<close>

text \<open>
  Concrete members and worlds on which the theorems below are evaluated. A world
  is scripted: the reply to the one \<^verbatim>\<open>Get\<close>, the decoder, and what the template
  writes.
\<close>

definition mkUser :: "string \<Rightarrow> string \<Rightarrow> bool \<Rightarrow> bool \<Rightarrow> User" where
  "mkUser realName email isBot deleted =
     \<lparr>Name = realName, Id_u = ''U'' @ realName, TeamId = ''T1'', IsBot = isBot, Deleted = deleted,
      Profile = \<lparr>FirstName = realName, LastName = [], RealName = realName, Title = [],
                 Image = [], Phone = [], Email = email, Status = []\<rparr>\<rparr>"

definition scripted ::
  "(string + Response) \<Rightarrow> (string \<Rightarrow> UserList \<Rightarrow> string + UserList) \<Rightarrow>
   (UserList \<Rightarrow> string list \<times> exec_end) \<Rightarrow> world" where
  "scripted reply decode exec =
     \<lparr>client_Get = (\<lambda>url. reply), json_Unmarshal = decode, template_Execute = exec,
      unicode_lower = (\<lambda>s. s)\<rparr>"

definition ok_reply :: "string \<Rightarrow> Response" where
  "ok_reply bytes = \<lparr>StatusCode = 200, BodyBytes = bytes, BodyErr = None\<rparr>"

text \<open>
  Upstream answers 200 with the text of the document, and the decoder knows the
  document.
\<close>

definition upstream ::
  "document \<Rightarrow> (UserList \<Rightarrow> string list \<times> exec_end) \<Rightarrow> world" where
  "upstream doc exec =
     scripted (Inr (ok_reply (documentText doc))) (decode_docs [doc]) exec"

text \<open>A decoder for bodies that are not JSON.\<close>

definition decode_syntax_error :: "string \<Rightarrow> UserList \<Rightarrow> string + UserList" where
  "decode_syntax_error data v = Inl ''invalid character looking for beginning of value''"

text \<open>A template that writes one chunk per member, its real name and a semicolon.\<close>

definition exec_names :: "UserList \<Rightarrow> string list \<times> exec_end" where
  "exec_names ul = (map (\<lambda>u. RealName (Profile u) @ '';'') (Members ul), Completed)"

definition exampleConfig :: config where
  "exampleConfig = \<lparr>EmailFilter = [], SlackApiToken = ''xoxp'', SlackTeam = ''T1''\<rparr>"

definition startUserList :: UserList where
  "startUserList = \<lparr>SlackTeam = ''T1'', Members = []\<rparr>"

lemmas scenario_defs = scripted_def ok_reply_def upstream_def decode_docs_def
  decode_syntax_error_def exec_names_def exampleConfig_def startUserList_def mkUser_def
  newResponseWriter_def

lemmas handler_defs = indexHandler_def users_list_url_def ReadAll_def http_Error_def Write_def
  WriteHeader_def StatusInternalServerError_def Let_def

section \<open>The filter loop\<close>

lemma filterLoop_eq: "filterLoop cfg ms acc = acc @ filter (keep cfg) ms"
  by (induction ms arbitrary: acc) auto

lemma HasSuffix_suffix: "HasSuffix s suf \<longleftrightarrow> suffix suf s"
  unfolding HasSuffix_def
  by (metis suffix_drop suffix_length_le suffix_def append_eq_conv_conj length_append
      add_diff_cancel_right')

lemma keep_iff:
  "keep cfg u \<longleftrightarrow> \<not> Deleted u \<and> \<not> IsBot u \<and> suffix (EmailFilter cfg) (Email (Profile u))"
  by (simp add: keep_def HasSuffix_suffix)

section \<open>The stable sort\<close>

lemma mset_insertStable: "mset (insertStable lt x ys) = add_mset x (mset ys)"
  by (induction ys) auto

lemma set_insertStable: "set (insertStable lt x ys) = insert x (set ys)"
  by (induction ys) auto

lemma mset_foldl_insertStable:
  "mset (foldl (\<lambda>acc x. insertStable lt x acc) acc xs) = mset acc + mset xs"
  by (induction xs arbitrary: acc) (auto simp: mset_insertStable)

lemma mset_SliceStable: "mset (SliceStable lt xs) = mset xs"
  by (simp add: SliceStable_def mset_foldl_insertStable)

lemma set_SliceStable: "set (SliceStable lt xs) = set xs"
  by (metis mset_SliceStable set_mset_mset)

lemma sorted_insertStable:
  fixes key :: "'a \<Rightarrow> 'k::linorder"
  shows "sorted (map key ys) \<Longrightarrow>
    sorted (map key (insertStable (\<lambda>a b. key a < key b) x ys))"
  by (induction ys) (auto simp: set_insertStable)

lemma sorted_foldl_insertStable:
  fixes key :: "'a \<Rightarrow> 'k::linorder"
  shows "sorted (map key acc) \<Longrightarrow>
    sorted (map key (foldl (\<lambda>acc x. insertStable (\<lambda>a b. key a < key b) x acc) acc xs))"
  by (induction xs arbitrary: acc) (auto simp: sorted_insertStable)

text \<open>
  Inserting into a sorted list puts the new element behind the elements of its
  own key: in front of it there is nothing greater, and the first element it
  passes over is strictly greater.
\<close>

lemma filter_insertStable:
  fixes key :: "'a \<Rightarrow> 'k::linorder"
  shows "sorted (map key ys) \<Longrightarrow>
    filter (\<lambda>y. key y = k) (insertStable (\<lambda>a b. key a < key b) x ys) =
    filter (\<lambda>y. key y = k) ys @ (if key x = k then [x] else [])"
proof (induction ys)
  case Nil
  then show ?case by simp
next
  case (Cons y ys)
  show ?case
  proof (cases "key x < key y")
    case True
    with Cons.prems have "\<forall>z \<in> set (y # ys). key x < key z" by auto
    then have "key x = k \<Longrightarrow> filter (\<lambda>y. key y = k) (y # ys) = []"
      by (auto simp: filter_empty_conv)
    with True show ?thesis by auto
  next
    case False
    with Cons show ?thesis by auto
  qed
qed

lemma filter_foldl_insertStable:
  fixes key :: "'a \<Rightarrow> 'k::linorder"
  shows "sorted (map key acc) \<Longrightarrow>
    filter (\<lambda>y. key y = k) (foldl (\<lambda>acc x. insertStable (\<lambda>a b. key a < key b) x acc) acc xs) =
    filter (\<lambda>y. key y = k) acc @ filter (\<lambda>y. key y = k) xs"
  by (induction xs arbitrary: acc) (auto simp: sorted_insertStable filter_insertStable)

text \<open>
  A list has one sorted, stable rearrangement, so any implementation of the
  contract of \<^verbatim>\<open>sort.SliceStable\<close> returns what the insertion sort returns; it is
  the list that \<^const>\<open>sort_key\<close> of HOL returns.
\<close>

lemma SliceStable_sort_key:
  fixes key :: "'a \<Rightarrow> 'k::linorder"
  shows "SliceStable (\<lambda>a b. key a < key b) xs = sort_key key xs"
proof (rule sym, rule properties_for_sort_key)
  show "mset (SliceStable (\<lambda>a b. key a < key b) xs) = mset xs"
    by (rule mset_SliceStable)
  show "sorted (map key (SliceStable (\<lambda>a b. key a < key b) xs))"
    unfolding SliceStable_def by (rule sorted_foldl_insertStable) simp
  fix k
  have "filter (\<lambda>x. key x = key k) (SliceStable (\<lambda>a b. key a < key b) xs) =
        filter (\<lambda>x. key x = key k) xs"
    unfolding SliceStable_def by (simp add: filter_foldl_insertStable)
  then show "filter (\<lambda>x. key k = key x) (SliceStable (\<lambda>a b. key a < key b) xs) =
        filter (\<lambda>x. key k = key x) xs"
    by (simp add: eq_commute [of "key k"])
qed

lemma lessRealName_key: "lessRealName env = (\<lambda>a b. sortKey env a < sortKey env b)"
  by (simp add: lessRealName_def fun_eq_iff)

lemma sorted_SliceStable: "sorted (map (sortKey env) (SliceStable (lessRealName env) xs))"
  unfolding SliceStable_def lessRealName_key by (rule sorted_foldl_insertStable) simp

lemma stable_SliceStable:
  "filter (\<lambda>u. sortKey env u = k) (SliceStable (lessRealName env) xs) =
   filter (\<lambda>u. sortKey env u = k) xs"
  unfolding SliceStable_def lessRealName_key by (simp add: filter_foldl_insertStable)

lemma ToLower_Nil: "ToLower f [] = []"
  by (simp add: ToLower_def)

section \<open>The scripted decoder\<close>

lemma storeUser_docOf: "storeUser (docOf u) old = u"
  by (simp add: storeUser_def storeProfile_def docOf_def present_def)

lemma storeMembers_docOf: "storeMembers (map docOf us) old = us"
  by (induction us arbitrary: old) (case_tac old; simp add: storeUser_docOf)+

lemma store_listing: "store (listing us) v = Inr (v\<lparr>Members := us\<rparr>)"
  by (simp add: listing_def storeMembers_docOf)

lemma decode_docs_first: "decode_docs (d # ds) (documentText d) v = store d v"
  by (simp add: decode_docs_def)

lemma upstream_Get: "client_Get (upstream doc exec) url = Inr (ok_reply (documentText doc))"
  by (simp add: upstream_def scripted_def)

lemma upstream_Unmarshal:
  "json_Unmarshal (upstream doc exec) (BodyBytes (ok_reply (documentText doc))) v = store doc v"
  by (simp add: upstream_def scripted_def ok_reply_def decode_docs_first)

section \<open>What the handler hands to the template\<close>

lemma keep_eq:
  "keep cfg = (\<lambda>u. \<not> Deleted u \<and> \<not> IsBot u \<and> suffix (EmailFilter cfg) (Email (Profile u)))"
  by (simp add: fun_eq_iff keep_iff)

lemma sortKey_eq: "sortKey env = (\<lambda>u. ToLower (unicode_lower env) (RealName (Profile u)))"
  by (simp add: fun_eq_iff sortKey_def)

lemma templateData_eq:
  "templateData env cfg decoded =
     decoded\<lparr>Members :=
       sort_key (\<lambda>u. ToLower (unicode_lower env) (RealName (Profile u)))
         (filter (\<lambda>u. \<not> Deleted u \<and> \<not> IsBot u \<and> suffix (EmailFilter cfg) (Email (Profile u)))
            (Members decoded))\<rparr>"
proof -
  have "SliceStable (lessRealName env) xs = sort_key (sortKey env) xs" for xs
    unfolding lessRealName_key by (rule SliceStable_sort_key)
  then show ?thesis
    by (simp add: templateData_def filterLoop_eq keep_eq sortKey_eq)
qed

lemma templateData_client_Get [simp]:
  "templateData (env\<lparr>client_Get := g\<rparr>) cfg decoded = templateData env cfg decoded"
  by (simp add: templateData_eq)

text \<open>
  The request after a reply has been decoded: all that is written to the response
  is what the template writes for \<^const>\<open>templateData\<close>, and the line of
  \<^verbatim>\<open>http.Error\<close> behind it when the template returns an error.
\<close>

lemma written_decoded:
  assumes "client_Get env (users_list_url cfg) = Inr resp"
      and "json_Unmarshal env (BodyBytes resp) st = Inr decoded"
  shows "written (indexHandler env cfg w st) =
           (case snd (template_Execute env (templateData env cfg decoded)) of
              Failed e \<Rightarrow>
                http_Error (foldl Write w (fst (template_Execute env (templateData env cfg decoded))))
                  oops_message StatusInternalServerError
            | _ \<Rightarrow> foldl Write w (fst (template_Execute env (templateData env cfg decoded))))"
  using assms by (simp add: indexHandler_def ReadAll_def Let_def split: exec_end.splits)

lemma userlistAfter_decoded:
  assumes "client_Get env (users_list_url cfg) = Inr resp"
      and "json_Unmarshal env (BodyBytes resp) st = Inr decoded"
  shows "userlistAfter (indexHandler env cfg w st) = Some (templateData env cfg decoded)"
  using assms by (simp add: indexHandler_def ReadAll_def Let_def split: exec_end.splits)

text \<open>
  The status code of the upstream reply is never read: whatever it is, the body is
  read and decoded, and the request ends in the template or in \<^verbatim>\<open>log.Fatal\<close>.
\<close>

lemma reply_is_decoded_whatever_its_status:
  assumes "client_Get env (users_list_url cfg) = Inr resp"
  shows "take 3 (calls (indexHandler env cfg w st)) =
           [CallGet (users_list_url cfg), CallReadAll, CallUnmarshal (BodyBytes resp)]"
  using assms
  by (simp add: indexHandler_def ReadAll_def Let_def split: sum.splits exec_end.splits)

text \<open>
  A panic of the template leaves the handler at line 209: nothing is logged and
  \<^verbatim>\<open>http.Error\<close> is not called.
\<close>

lemma template_panic_leaves_handler:
  assumes "client_Get env (users_list_url cfg) = Inr resp"
      and "json_Unmarshal env (BodyBytes resp) st = Inr decoded"
      and "template_Execute env (templateData env cfg decoded) = (chunks, Panicked v)"
  shows "indexHandler env cfg w st =
           Panic (foldl Write w chunks) (templateData env cfg decoded)
             [CallGet (users_list_url cfg), CallReadAll, CallUnmarshal (BodyBytes resp),
              CallExecute (templateData env cfg decoded)]"
  using assms by (simp add: indexHandler_def ReadAll_def Let_def)

text \<open>
  A template that returns an error before its first \<^verbatim>\<open>Write\<close>: the status is
  still unwritten, and \<^verbatim>\<open>http.Error\<close> answers 500 with the message and a line
  feed.
\<close>

lemma template_failure_before_output_gives_500:
  assumes "client_Get env (users_list_url cfg) = Inr resp"
      and "json_Unmarshal env (BodyBytes resp) st = Inr decoded"
      and "template_Execute env (templateData env cfg decoded) = ([], Failed err)"
      and "status w = None"
  shows "indexHandler env cfg w st =
           Return (w\<lparr>status := Some 500, body := body w @ oops_message @ [CHR 0x0A]\<rparr>)
             (templateData env cfg decoded)
             [CallGet (users_list_url cfg), CallReadAll, CallUnmarshal (BodyBytes resp),
              CallExecute (templateData env cfg decoded),
              CallPrintf (''Failed to execute index template: '' @ err @ [CHR 0x0A]),
              CallError oops_message 500]"
  using assms
  by (simp add: indexHandler_def ReadAll_def http_Error_def Write_def WriteHeader_def
      StatusInternalServerError_def Let_def)

section \<open>The claims\<close>

text \<open>
  C1. For every member list and every configured suffix, the loop retains exactly
  the members that are not deleted, are not bots and whose email ends with the
  suffix. When the reply has been decoded, the template is run on the decoded
  list with its members replaced by a list \<open>shown\<close> that has exactly the members
  of the decoded list that pass, each as often as it occurs there; no deleted
  member and no bot is in it. What the template writes for that list, and the
  line of \<^verbatim>\<open>http.Error\<close> behind it if the template returns an error, is all that
  is written to the response.
\<close>

theorem filter_retains_exactly:
  "filterLoop cfg ms [] =
     filter (\<lambda>u. \<not> Deleted u \<and> \<not> IsBot u \<and> suffix (EmailFilter cfg) (Email (Profile u))) ms
   \<and> (client_Get env (users_list_url cfg) = Inr resp \<longrightarrow>
        json_Unmarshal env (BodyBytes resp) st = Inr decoded \<longrightarrow>
        (\<exists>shown.
           mset shown =
             mset (filter (\<lambda>u. \<not> Deleted u \<and> \<not> IsBot u \<and> suffix (EmailFilter cfg) (Email (Profile u)))
                    (Members decoded))
         \<and> (\<forall>u \<in> set shown.
               \<not> Deleted u \<and> \<not> IsBot u \<and> suffix (EmailFilter cfg) (Email (Profile u)))
         \<and> userlistAfter (indexHandler env cfg w st) = Some (decoded\<lparr>Members := shown\<rparr>)
         \<and> written (indexHandler env cfg w st) =
             (case snd (template_Execute env (decoded\<lparr>Members := shown\<rparr>)) of
                Failed e \<Rightarrow>
                  http_Error (foldl Write w (fst (template_Execute env (decoded\<lparr>Members := shown\<rparr>))))
                    oops_message 500
              | _ \<Rightarrow> foldl Write w (fst (template_Execute env (decoded\<lparr>Members := shown\<rparr>))))))"
proof (intro conjI impI)
  show "filterLoop cfg ms [] =
     filter (\<lambda>u. \<not> Deleted u \<and> \<not> IsBot u \<and> suffix (EmailFilter cfg) (Email (Profile u))) ms"
    by (simp add: filterLoop_eq keep_eq)
next
  let ?P = "\<lambda>u. \<not> Deleted u \<and> \<not> IsBot u \<and> suffix (EmailFilter cfg) (Email (Profile u))"
  let ?shown = "sort_key (\<lambda>u. ToLower (unicode_lower env) (RealName (Profile u)))
                  (filter ?P (Members decoded))"
  assume g: "client_Get env (users_list_url cfg) = Inr resp"
    and d: "json_Unmarshal env (BodyBytes resp) st = Inr decoded"
  have t: "templateData env cfg decoded = decoded\<lparr>Members := ?shown\<rparr>"
    by (rule templateData_eq)
  have "mset ?shown = mset (filter ?P (Members decoded))" by simp
  moreover have "\<forall>u \<in> set ?shown. ?P u" by simp
  moreover have "userlistAfter (indexHandler env cfg w st) = Some (decoded\<lparr>Members := ?shown\<rparr>)"
    using userlistAfter_decoded [OF g d] t by simp
  moreover have "written (indexHandler env cfg w st) =
             (case snd (template_Execute env (decoded\<lparr>Members := ?shown\<rparr>)) of
                Failed e \<Rightarrow>
                  http_Error (foldl Write w (fst (template_Execute env (decoded\<lparr>Members := ?shown\<rparr>))))
                    oops_message 500
              | _ \<Rightarrow> foldl Write w (fst (template_Execute env (decoded\<lparr>Members := ?shown\<rparr>))))"
    using written_decoded [OF g d, of w, unfolded t StatusInternalServerError_def] .
  ultimately show "\<exists>shown.
           mset shown = mset (filter ?P (Members decoded))
         \<and> (\<forall>u \<in> set shown. ?P u)
         \<and> userlistAfter (indexHandler env cfg w st) = Some (decoded\<lparr>Members := shown\<rparr>)
         \<and> written (indexHandler env cfg w st) =
             (case snd (template_Execute env (decoded\<lparr>Members := shown\<rparr>)) of
                Failed e \<Rightarrow>
                  http_Error (foldl Write w (fst (template_Execute env (decoded\<lparr>Members := shown\<rparr>))))
                    oops_message 500
              | _ \<Rightarrow> foldl Write w (fst (template_Execute env (decoded\<lparr>Members := shown\<rparr>))))"
    by blast
qed

text \<open>
  With the suffix \<^verbatim>\<open>tink.se\<close> and a reply that lists a member, a bot, a deleted
  account and an outsider, the page has the member alone.
\<close>

theorem filter_retains_exactly_witness:
  "written (indexHandler
       (upstream (listing [mkUser ''Bob'' ''b@tink.se'' False False,
                           mkUser ''Hubot'' ''h@tink.se'' True False,
                           mkUser ''Gone'' ''g@tink.se'' False True,
                           mkUser ''Eve'' ''eve@example.com'' False False]) exec_names)
       (exampleConfig\<lparr>EmailFilter := ''tink.se''\<rparr>) newResponseWriter startUserList)
     = \<lparr>status = Some 200, body = ''Bob;''\<rparr>"
proof -
  let ?ms = "[mkUser ''Bob'' ''b@tink.se'' False False,
              mkUser ''Hubot'' ''h@tink.se'' True False,
              mkUser ''Gone'' ''g@tink.se'' False True,
              mkUser ''Eve'' ''eve@example.com'' False False]"
  let ?env = "upstream (listing ?ms) exec_names"
  let ?cfg = "exampleConfig\<lparr>EmailFilter := ''tink.se''\<rparr>"
  let ?resp = "ok_reply (documentText (listing ?ms))"
  let ?P = "\<lambda>u. \<not> Deleted u \<and> \<not> IsBot u \<and> suffix (EmailFilter ?cfg) (Email (Profile u))"
  have g: "client_Get ?env (users_list_url ?cfg) = Inr ?resp"
    by (rule upstream_Get)
  have d: "json_Unmarshal ?env (BodyBytes ?resp) startUserList =
           Inr (startUserList\<lparr>Members := ?ms\<rparr>)"
    by (simp only: upstream_Unmarshal store_listing)
  have f: "filter ?P ?ms = [mkUser ''Bob'' ''b@tink.se'' False False]"
    by (simp add: mkUser_def exampleConfig_def suffix_to_prefix)
  note th = filter_retains_exactly [of ?cfg ?ms ?env ?resp startUserList
      "startUserList\<lparr>Members := ?ms\<rparr>" newResponseWriter, THEN conjunct2, rule_format, OF g d]
  then obtain shown where
    m: "mset shown = mset (filter ?P (Members (startUserList\<lparr>Members := ?ms\<rparr>)))" and
    w: "written (indexHandler ?env ?cfg newResponseWriter startUserList) =
          (case snd (template_Execute ?env (startUserList\<lparr>Members := ?ms, Members := shown\<rparr>)) of
             Failed e \<Rightarrow>
               http_Error (foldl Write newResponseWriter
                   (fst (template_Execute ?env (startUserList\<lparr>Members := ?ms, Members := shown\<rparr>))))
                 oops_message 500
           | _ \<Rightarrow> foldl Write newResponseWriter
                   (fst (template_Execute ?env (startUserList\<lparr>Members := ?ms, Members := shown\<rparr>))))"
    by blast
  have sel: "Members (startUserList\<lparr>Members := xs\<rparr>) = xs" for xs
    by simp
  from m have "mset shown = {#mkUser ''Bob'' ''b@tink.se'' False False#}"
    unfolding sel f by simp
  then have s: "shown = [mkUser ''Bob'' ''b@tink.se'' False False]"
    by (rule mset_single_iff [THEN iffD1])
  have "written (indexHandler ?env ?cfg newResponseWriter startUserList) =
       (case snd (template_Execute ?env (startUserList\<lparr>Members := ?ms, Members := [mkUser ''Bob'' ''b@tink.se'' False False]\<rparr>)) of
             Failed e \<Rightarrow>
               http_Error (foldl Write newResponseWriter
                   (fst (template_Execute ?env (startUserList\<lparr>Members := ?ms, Members := [mkUser ''Bob'' ''b@tink.se'' False False]\<rparr>))))
                 oops_message 500
           | _ \<Rightarrow> foldl Write newResponseWriter
                   (fst (template_Execute ?env (startUserList\<lparr>Members := ?ms, Members := [mkUser ''Bob'' ''b@tink.se'' False False]\<rparr>))))"
    using w unfolding s .
  also have "\<dots> = \<lparr>status = Some 200, body = ''Bob;''\<rparr>"
    by (simp add: upstream_def scripted_def exec_names_def mkUser_def newResponseWriter_def
        Write_def WriteHeader_def)
  finally show ?thesis .
qed

text \<open>
  C2. When the reply has been decoded, the template is run on a list \<open>shown\<close>, and
  what it writes for that list is all that is written to the response besides
  the line of \<^verbatim>\<open>http.Error\<close>. The list is sorted ascending by the lower-cased real
  name. The sort is stable: for every key, the members of that key are in
  \<open>shown\<close> in the order they have in the filtered upstream list. A member with an
  empty real name stands in front of every member whose lower-cased real name is
  not empty.
\<close>

theorem rendered_sorted_stable:
  "client_Get env (users_list_url cfg) = Inr resp \<longrightarrow>
   json_Unmarshal env (BodyBytes resp) st = Inr decoded \<longrightarrow>
   (\<exists>shown.
      written (indexHandler env cfg w st) =
        (case snd (template_Execute env (decoded\<lparr>Members := shown\<rparr>)) of
           Failed e \<Rightarrow>
             http_Error (foldl Write w (fst (template_Execute env (decoded\<lparr>Members := shown\<rparr>))))
               oops_message 500
         | _ \<Rightarrow> foldl Write w (fst (template_Execute env (decoded\<lparr>Members := shown\<rparr>))))
    \<and> userlistAfter (indexHandler env cfg w st) = Some (decoded\<lparr>Members := shown\<rparr>)
    \<and> mset shown =
        mset (filter (\<lambda>u. \<not> Deleted u \<and> \<not> IsBot u \<and> suffix (EmailFilter cfg) (Email (Profile u)))
               (Members decoded))
    \<and> sorted (map (\<lambda>u. ToLower (unicode_lower env) (RealName (Profile u))) shown)
    \<and> (\<forall>k. filter (\<lambda>u. ToLower (unicode_lower env) (RealName (Profile u)) = k) shown =
            filter (\<lambda>u. ToLower (unicode_lower env) (RealName (Profile u)) = k)
              (filter (\<lambda>u. \<not> Deleted u \<and> \<not> IsBot u \<and> suffix (EmailFilter cfg) (Email (Profile u)))
                 (Members decoded)))
    \<and> (\<forall>i j. i < length shown \<longrightarrow> j < length shown \<longrightarrow>
              RealName (Profile (shown ! i)) = [] \<longrightarrow>
              ToLower (unicode_lower env) (RealName (Profile (shown ! j))) \<noteq> [] \<longrightarrow> i < j))"
proof (intro impI)
  let ?P = "\<lambda>u. \<not> Deleted u \<and> \<not> IsBot u \<and> suffix (EmailFilter cfg) (Email (Profile u))"
  let ?key = "\<lambda>u. ToLower (unicode_lower env) (RealName (Profile u))"
  let ?shown = "sort_key ?key (filter ?P (Members decoded))"
  assume g: "client_Get env (users_list_url cfg) = Inr resp"
    and d: "json_Unmarshal env (BodyBytes resp) st = Inr decoded"
  have t: "templateData env cfg decoded = decoded\<lparr>Members := ?shown\<rparr>"
    by (rule templateData_eq)
  have s: "sorted (map ?key ?shown)" by simp
  have "written (indexHandler env cfg w st) =
        (case snd (template_Execute env (decoded\<lparr>Members := ?shown\<rparr>)) of
           Failed e \<Rightarrow>
             http_Error (foldl Write w (fst (template_Execute env (decoded\<lparr>Members := ?shown\<rparr>))))
               oops_message 500
         | _ \<Rightarrow> foldl Write w (fst (template_Execute env (decoded\<lparr>Members := ?shown\<rparr>))))"
    using written_decoded [OF g d, of w, unfolded t StatusInternalServerError_def] .
  moreover have "userlistAfter (indexHandler env cfg w st) = Some (decoded\<lparr>Members := ?shown\<rparr>)"
    using userlistAfter_decoded [OF g d] t by simp
  moreover have "mset ?shown = mset (filter ?P (Members decoded))" by simp
  moreover note s
  moreover have "\<forall>k. filter (\<lambda>u. ?key u = k) ?shown =
                     filter (\<lambda>u. ?key u = k) (filter ?P (Members decoded))"
    by (simp add: sort_key_stable)
  moreover have "\<forall>i j. i < length ?shown \<longrightarrow> j < length ?shown \<longrightarrow>
              RealName (Profile (?shown ! i)) = [] \<longrightarrow> ?key (?shown ! j) \<noteq> [] \<longrightarrow> i < j"
  proof (intro allI impI)
    fix i j
    assume i: "i < length ?shown" and j: "j < length ?shown"
      and e: "RealName (Profile (?shown ! i)) = []" and n: "?key (?shown ! j) \<noteq> []"
    show "i < j"
    proof (rule ccontr)
      assume "\<not> i < j"
      then have "j \<le> i" by simp
      with s i have "map ?key ?shown ! j \<le> map ?key ?shown ! i"
        by (simp add: sorted_iff_nth_mono del: nth_map sorted_sort_key)
      with i j have "?key (?shown ! j) \<le> ?key (?shown ! i)" by simp
      moreover from e have "?key (?shown ! i) = []" by (simp add: ToLower_Nil)
      ultimately show False using n by simp
    qed
  qed
  ultimately show "\<exists>shown.
      written (indexHandler env cfg w st) =
        (case snd (template_Execute env (decoded\<lparr>Members := shown\<rparr>)) of
           Failed e \<Rightarrow>
             http_Error (foldl Write w (fst (template_Execute env (decoded\<lparr>Members := shown\<rparr>))))
               oops_message 500
         | _ \<Rightarrow> foldl Write w (fst (template_Execute env (decoded\<lparr>Members := shown\<rparr>))))
    \<and> userlistAfter (indexHandler env cfg w st) = Some (decoded\<lparr>Members := shown\<rparr>)
    \<and> mset shown = mset (filter ?P (Members decoded))
    \<and> sorted (map ?key shown)
    \<and> (\<forall>k. filter (\<lambda>u. ?key u = k) shown = filter (\<lambda>u. ?key u = k) (filter ?P (Members decoded)))
    \<and> (\<forall>i j. i < length shown \<longrightarrow> j < length shown \<longrightarrow>
              RealName (Profile (shown ! i)) = [] \<longrightarrow> ?key (shown ! j) \<noteq> [] \<longrightarrow> i < j)"
    by blast
qed

text \<open>
  Upstream order Bob, alice, BOB, and a member without a real name: on the page
  the nameless member is first, alice is in front of Bob, and the two members of
  key \<^verbatim>\<open>bob\<close> are in their upstream order.
\<close>

theorem rendered_sorted_stable_witness:
  "written (indexHandler
       (upstream (listing [mkUser ''Bob'' ''b@x.com'' False False,
                           mkUser ''alice'' ''a@x.com'' False False,
                           mkUser ''BOB'' ''b2@x.com'' False False,
                           mkUser [] ''n@x.com'' False False]) exec_names)
       exampleConfig newResponseWriter startUserList)
     = \<lparr>status = Some 200, body = '';alice;Bob;BOB;''\<rparr>"
proof -
  let ?ms = "[mkUser ''Bob'' ''b@x.com'' False False,
              mkUser ''alice'' ''a@x.com'' False False,
              mkUser ''BOB'' ''b2@x.com'' False False,
              mkUser [] ''n@x.com'' False False]"
  let ?sorted = "[mkUser [] ''n@x.com'' False False,
                  mkUser ''alice'' ''a@x.com'' False False,
                  mkUser ''Bob'' ''b@x.com'' False False,
                  mkUser ''BOB'' ''b2@x.com'' False False]"
  let ?env = "upstream (listing ?ms) exec_names"
  let ?resp = "ok_reply (documentText (listing ?ms))"
  let ?P = "\<lambda>u. \<not> Deleted u \<and> \<not> IsBot u \<and> suffix (EmailFilter exampleConfig) (Email (Profile u))"
  let ?key = "\<lambda>u. ToLower (unicode_lower ?env) (RealName (Profile u))"
  have g: "client_Get ?env (users_list_url exampleConfig) = Inr ?resp"
    by (rule upstream_Get)
  have d: "json_Unmarshal ?env (BodyBytes ?resp) startUserList =
           Inr (startUserList\<lparr>Members := ?ms\<rparr>)"
    by (simp only: upstream_Unmarshal store_listing)
  have sel: "Members (startUserList\<lparr>Members := xs\<rparr>) = xs" for xs
    by simp
  note th = rendered_sorted_stable [of ?env exampleConfig ?resp startUserList
      "startUserList\<lparr>Members := ?ms\<rparr>" newResponseWriter, rule_format, OF g d]
  then obtain shown where
    w: "written (indexHandler ?env exampleConfig newResponseWriter startUserList) =
          (case snd (template_Execute ?env (startUserList\<lparr>Members := ?ms, Members := shown\<rparr>)) of
             Failed e \<Rightarrow>
               http_Error (foldl Write newResponseWriter
                   (fst (template_Execute ?env (startUserList\<lparr>Members := ?ms, Members := shown\<rparr>))))
                 oops_message 500
           | _ \<Rightarrow> foldl Write newResponseWriter
                   (fst (template_Execute ?env (startUserList\<lparr>Members := ?ms, Members := shown\<rparr>))))" and
    m: "mset shown = mset (filter ?P (Members (startUserList\<lparr>Members := ?ms\<rparr>)))" and
    so: "sorted (map ?key shown)" and
    st: "\<forall>k. filter (\<lambda>u. ?key u = k) shown =
             filter (\<lambda>u. ?key u = k) (filter ?P (Members (startUserList\<lparr>Members := ?ms\<rparr>)))"
    by blast
  have "sort_key ?key (filter ?P ?ms) = shown"
  proof (rule properties_for_sort_key)
    show "mset shown = mset (filter ?P ?ms)" using m unfolding sel .
    show "sorted (map ?key shown)" by (rule so)
    fix k
    from st have "filter (\<lambda>u. ?key u = ?key k) shown = filter (\<lambda>u. ?key u = ?key k) (filter ?P ?ms)"
      unfolding sel by blast
    then show "filter (\<lambda>x. ?key k = ?key x) shown = filter (\<lambda>x. ?key k = ?key x) (filter ?P ?ms)"
      by (simp only: eq_commute [of "?key k"])
  qed
  moreover have "sort_key ?key (filter ?P ?ms) = ?sorted"
    by code_simp
  ultimately have s: "shown = ?sorted" by simp
  have "written (indexHandler ?env exampleConfig newResponseWriter startUserList) =
          (case snd (template_Execute ?env (startUserList\<lparr>Members := ?ms, Members := ?sorted\<rparr>)) of
             Failed e \<Rightarrow>
               http_Error (foldl Write newResponseWriter
                   (fst (template_Execute ?env (startUserList\<lparr>Members := ?ms, Members := ?sorted\<rparr>))))
                 oops_message 500
           | _ \<Rightarrow> foldl Write newResponseWriter
                   (fst (template_Execute ?env (startUserList\<lparr>Members := ?ms, Members := ?sorted\<rparr>))))"
    using w unfolding s .
  also have "\<dots> = \<lparr>status = Some 200, body = '';alice;Bob;BOB;''\<rparr>"
    by (simp add: upstream_def scripted_def exec_names_def mkUser_def newResponseWriter_def
        Write_def WriteHeader_def)
  finally show ?thesis .
qed

text \<open>
  C3. The email filter is a literal suffix test, not a match of the domain: a
  member is retained exactly when it is in the list, is neither deleted nor a
  bot, and its email is some text followed by the configured suffix. With the
  suffix \<^verbatim>\<open>tink.se\<close>, such a member is retained with the email \<^verbatim>\<open>a@tink.se\<close> and
  with \<^verbatim>\<open>a@nottink.se\<close> too; it is dropped with \<^verbatim>\<open>a@tink.se.evil.com\<close>, with
  \<^verbatim>\<open>a@TINK.SE\<close> and with \<^verbatim>\<open>ink.se\<close>.
\<close>

theorem suffix_match_is_literal:
  "(u \<in> set (filterLoop cfg ms []) \<longleftrightarrow>
      u \<in> set ms \<and> \<not> Deleted u \<and> \<not> IsBot u \<and> (\<exists>p. Email (Profile u) = p @ EmailFilter cfg))
   \<and> (EmailFilter cfg = ''tink.se'' \<longrightarrow> \<not> Deleted u \<longrightarrow> \<not> IsBot u \<longrightarrow> u \<in> set ms \<longrightarrow>
        (Email (Profile u) = ''a@tink.se'' \<longrightarrow> u \<in> set (filterLoop cfg ms []))
      \<and> (Email (Profile u) = ''a@nottink.se'' \<longrightarrow> u \<in> set (filterLoop cfg ms []))
      \<and> (Email (Profile u) = ''a@tink.se.evil.com'' \<longrightarrow> u \<notin> set (filterLoop cfg ms []))
      \<and> (Email (Profile u) = ''a@TINK.SE'' \<longrightarrow> u \<notin> set (filterLoop cfg ms []))
      \<and> (Email (Profile u) = ''ink.se'' \<longrightarrow> u \<notin> set (filterLoop cfg ms [])))"
proof (intro conjI impI)
  show "u \<in> set (filterLoop cfg ms []) \<longleftrightarrow>
      u \<in> set ms \<and> \<not> Deleted u \<and> \<not> IsBot u \<and> (\<exists>p. Email (Profile u) = p @ EmailFilter cfg)"
    by (auto simp: filterLoop_eq keep_iff suffix_def)
next
  assume "EmailFilter cfg = ''tink.se''" "\<not> Deleted u" "\<not> IsBot u" "u \<in> set ms"
    "Email (Profile u) = ''a@tink.se''"
  then show "u \<in> set (filterLoop cfg ms [])"
    by (simp add: filterLoop_eq keep_def HasSuffix_def)
next
  assume "EmailFilter cfg = ''tink.se''" "\<not> Deleted u" "\<not> IsBot u" "u \<in> set ms"
    "Email (Profile u) = ''a@nottink.se''"
  then show "u \<in> set (filterLoop cfg ms [])"
    by (simp add: filterLoop_eq keep_def HasSuffix_def)
next
  assume "EmailFilter cfg = ''tink.se''" "Email (Profile u) = ''a@tink.se.evil.com''"
  then show "u \<notin> set (filterLoop cfg ms [])"
    by (simp add: filterLoop_eq keep_def HasSuffix_def)
next
  assume "EmailFilter cfg = ''tink.se''" "Email (Profile u) = ''a@TINK.SE''"
  then show "u \<notin> set (filterLoop cfg ms [])"
    by (simp add: filterLoop_eq keep_def HasSuffix_def)
next
  assume "EmailFilter cfg = ''tink.se''" "Email (Profile u) = ''ink.se''"
  then show "u \<notin> set (filterLoop cfg ms [])"
    by (simp add: filterLoop_eq keep_def HasSuffix_def)
qed

theorem suffix_match_is_literal_witness:
  "mkUser ''Mallory'' ''a@nottink.se'' False False \<in>
     set (filterLoop (exampleConfig\<lparr>EmailFilter := ''tink.se''\<rparr>)
            [mkUser ''Alice'' ''a@tink.se'' False False,
             mkUser ''Mallory'' ''a@nottink.se'' False False,
             mkUser ''Eve'' ''a@tink.se.evil.com'' False False] [])
   \<and> mkUser ''Eve'' ''a@tink.se.evil.com'' False False \<notin>
     set (filterLoop (exampleConfig\<lparr>EmailFilter := ''tink.se''\<rparr>)
            [mkUser ''Alice'' ''a@tink.se'' False False,
             mkUser ''Mallory'' ''a@nottink.se'' False False,
             mkUser ''Eve'' ''a@tink.se.evil.com'' False False] [])"
proof
  let ?cfg = "exampleConfig\<lparr>EmailFilter := ''tink.se''\<rparr>"
  let ?ms = "[mkUser ''Alice'' ''a@tink.se'' False False,
              mkUser ''Mallory'' ''a@nottink.se'' False False,
              mkUser ''Eve'' ''a@tink.se.evil.com'' False False]"
  show "mkUser ''Mallory'' ''a@nottink.se'' False False \<in> set (filterLoop ?cfg ?ms [])"
    using suffix_match_is_literal [of "mkUser ''Mallory'' ''a@nottink.se'' False False" ?cfg ?ms]
    by (simp add: mkUser_def)
  show "mkUser ''Eve'' ''a@tink.se.evil.com'' False False \<notin> set (filterLoop ?cfg ?ms [])"
    using suffix_match_is_literal [of "mkUser ''Eve'' ''a@tink.se.evil.com'' False False" ?cfg ?ms]
    by (simp add: mkUser_def)
qed

text \<open>
  C4. Whenever \<^verbatim>\<open>client.Get\<close> returns an error, the handler answers on a fresh
  response with status 500 and the error text, followed by a line feed, as the
  body; \<^verbatim>\<open>Get\<close> is called once, the template is not executed, and the package
  variable is left as it was.
\<close>

theorem fetch_error_gives_500:
  assumes "client_Get env (users_list_url cfg) = Inl err" and "status w = None"
  shows "indexHandler env cfg w st =
           Return (w\<lparr>status := Some 500, body := body w @ err @ [CHR 0x0A]\<rparr>) st
             [CallGet (users_list_url cfg), CallError err 500]"
  using assms
  by (simp add: indexHandler_def http_Error_def Write_def WriteHeader_def
      StatusInternalServerError_def Let_def)

theorem fetch_error_gives_500_witness:
  "indexHandler (scripted (Inl ''urlfetch: DEADLINE_EXCEEDED'') decode_syntax_error exec_names)
       exampleConfig newResponseWriter startUserList =
     Return \<lparr>status = Some 500, body = ''urlfetch: DEADLINE_EXCEEDED'' @ [CHR 0x0A]\<rparr>
       startUserList
       [CallGet ''https://slack.com/api/users.list?token=xoxp'',
        CallError ''urlfetch: DEADLINE_EXCEEDED'' 500]"
  using fetch_error_gives_500 [of
      "scripted (Inl ''urlfetch: DEADLINE_EXCEEDED'') decode_syntax_error exec_names"
      exampleConfig "''urlfetch: DEADLINE_EXCEEDED''" newResponseWriter startUserList]
  by (simp add: scripted_def newResponseWriter_def users_list_url_def exampleConfig_def)

text \<open>
  An upstream reply with an HTTP error status is not an error of \<^verbatim>\<open>client.Get\<close>:
  the handler never reads \<^verbatim>\<open>resp.StatusCode\<close>. Upstream answers 503 with an HTML
  page; the handler reads and decodes the page, decoding fails, and the process
  ends without a response.
\<close>

theorem http_error_status_counterexample:
  "indexHandler
       (scripted (Inr \<lparr>StatusCode = 503, BodyBytes = ''<html>Service Unavailable</html>'',
                      BodyErr = None\<rparr>)
          decode_syntax_error exec_names)
       exampleConfig newResponseWriter startUserList =
     Exit 1 newResponseWriter
       [CallGet ''https://slack.com/api/users.list?token=xoxp'', CallReadAll,
        CallUnmarshal ''<html>Service Unavailable</html>'',
        CallFatal ''invalid character looking for beginning of value'']"
  by (simp add: handler_defs scenario_defs)

text \<open>
  C5. Whenever decoding the body of the reply fails, \<^verbatim>\<open>log.Fatal\<close> ends the process
  with exit status 1: the handler does not return, and the response is as the
  handler received it, with nothing written.
\<close>

theorem decode_failure_is_fatal:
  assumes "client_Get env (users_list_url cfg) = Inr resp"
      and "json_Unmarshal env (BodyBytes resp) st = Inl err"
  shows "indexHandler env cfg w st =
           Exit 1 w [CallGet (users_list_url cfg), CallReadAll, CallUnmarshal (BodyBytes resp),
                     CallFatal err]
         \<and> response (indexHandler env cfg w st) = None"
  using assms by (simp add: indexHandler_def ReadAll_def Let_def)

theorem decode_failure_is_fatal_witness:
  "response (indexHandler (scripted (Inr (ok_reply ''not json'')) decode_syntax_error exec_names)
       exampleConfig newResponseWriter startUserList) = None"
  using decode_failure_is_fatal [of
      "scripted (Inr (ok_reply ''not json'')) decode_syntax_error exec_names"
      exampleConfig "ok_reply ''not json''" startUserList
      "''invalid character looking for beginning of value''" newResponseWriter]
  by (simp add: scripted_def decode_syntax_error_def)


text \<open>
  C7. Filtering is idempotent, filtering a filtered list returns it unchanged, and
  every member of the filtered list is a member of the input list, the record as
  it was.
\<close>

theorem filter_idempotent:
  "filterLoop cfg (filterLoop cfg ms []) [] = filterLoop cfg ms []
   \<and> set (filterLoop cfg ms []) \<subseteq> set ms"
  by (auto simp: filterLoop_eq)

theorem filter_idempotent_witness:
  "filterLoop exampleConfig
     (filterLoop exampleConfig
        [mkUser ''Bob'' ''b@x.com'' False False, mkUser ''Hubot'' ''h@x.com'' True False] []) [] =
   [mkUser ''Bob'' ''b@x.com'' False False]"
proof -
  have "filterLoop exampleConfig
     (filterLoop exampleConfig
        [mkUser ''Bob'' ''b@x.com'' False False, mkUser ''Hubot'' ''h@x.com'' True False] []) [] =
     filterLoop exampleConfig
        [mkUser ''Bob'' ''b@x.com'' False False, mkUser ''Hubot'' ''h@x.com'' True False] []"
    using filter_idempotent [of exampleConfig
      "[mkUser ''Bob'' ''b@x.com'' False False, mkUser ''Hubot'' ''h@x.com'' True False]"]
    by (rule conjunct1)
  also have "\<dots> = [mkUser ''Bob'' ''b@x.com'' False False]"
    by code_simp
  finally show ?thesis .
qed

text \<open>
  C8. Line 208 replaces the members of the package variable by the filtered, sorted
  list as a whole. When the fetch fails, what is written and called does not
  depend on the variable. When decoding the body of this reply gives the same
  result for two values the variable may hold, the request ends the same way for
  both: response, calls and the variable afterwards. Beyond the reply and the
  configuration the request depends on the previous list only through what
  \<^verbatim>\<open>json.Unmarshal\<close> makes of this body in the variable.
\<close>

theorem output_independent_of_previous_list:
  "(client_Get env (users_list_url cfg) = Inl err \<longrightarrow>
      written (indexHandler env cfg w st1) = written (indexHandler env cfg w st2)
    \<and> calls (indexHandler env cfg w st1) = calls (indexHandler env cfg w st2))
   \<and> (client_Get env (users_list_url cfg) = Inr resp \<longrightarrow>
      json_Unmarshal env (BodyBytes resp) st1 = json_Unmarshal env (BodyBytes resp) st2 \<longrightarrow>
      indexHandler env cfg w st1 = indexHandler env cfg w st2)
   \<and> (client_Get env (users_list_url cfg) = Inr resp \<longrightarrow>
      json_Unmarshal env (BodyBytes resp) st = Inr decoded \<longrightarrow>
      userlistAfter (indexHandler env cfg w st) =
        Some (decoded\<lparr>Members :=
          sort_key (\<lambda>u. ToLower (unicode_lower env) (RealName (Profile u)))
            (filter (\<lambda>u. \<not> Deleted u \<and> \<not> IsBot u \<and> suffix (EmailFilter cfg) (Email (Profile u)))
               (Members decoded))\<rparr>))"
proof (intro conjI impI)
  assume "client_Get env (users_list_url cfg) = Inl err"
  then show "written (indexHandler env cfg w st1) = written (indexHandler env cfg w st2)"
    and "calls (indexHandler env cfg w st1) = calls (indexHandler env cfg w st2)"
    by (simp_all add: indexHandler_def Let_def)
next
  assume "client_Get env (users_list_url cfg) = Inr resp"
    and "json_Unmarshal env (BodyBytes resp) st1 = json_Unmarshal env (BodyBytes resp) st2"
  then show "indexHandler env cfg w st1 = indexHandler env cfg w st2"
    by (simp add: indexHandler_def ReadAll_def Let_def)
next
  assume g: "client_Get env (users_list_url cfg) = Inr resp"
    and d: "json_Unmarshal env (BodyBytes resp) st = Inr decoded"
  show "userlistAfter (indexHandler env cfg w st) =
        Some (decoded\<lparr>Members :=
          sort_key (\<lambda>u. ToLower (unicode_lower env) (RealName (Profile u)))
            (filter (\<lambda>u. \<not> Deleted u \<and> \<not> IsBot u \<and> suffix (EmailFilter cfg) (Email (Profile u)))
               (Members decoded))\<rparr>)"
    using userlistAfter_decoded [OF g d, of w] by (simp only: templateData_eq)
qed

text \<open>
  A reply that lists Bob with every key: decoding it stores Bob whether the
  variable held alice, from the previous request, or nobody, and the two requests
  end the same way, with Bob on the page.
\<close>

theorem output_independent_of_previous_list_witness:
  "indexHandler (upstream (listing [mkUser ''Bob'' ''b@x.com'' False False]) exec_names)
       exampleConfig newResponseWriter
       \<lparr>SlackTeam = ''T1'', Members = [mkUser ''alice'' ''a@x.com'' False False]\<rparr>
   = indexHandler (upstream (listing [mkUser ''Bob'' ''b@x.com'' False False]) exec_names)
       exampleConfig newResponseWriter startUserList"
proof -
  let ?doc = "listing [mkUser ''Bob'' ''b@x.com'' False False]"
  let ?env = "upstream ?doc exec_names"
  let ?resp = "ok_reply (documentText ?doc)"
  let ?st1 = "\<lparr>SlackTeam = ''T1'', Members = [mkUser ''alice'' ''a@x.com'' False False]\<rparr>"
  have g: "client_Get ?env (users_list_url exampleConfig) = Inr ?resp"
    by (rule upstream_Get)
  have "json_Unmarshal ?env (BodyBytes ?resp) ?st1 =
        Inr \<lparr>SlackTeam = ''T1'', Members = [mkUser ''Bob'' ''b@x.com'' False False]\<rparr>"
    by (simp add: upstream_Unmarshal store_listing)
  moreover have "json_Unmarshal ?env (BodyBytes ?resp) startUserList =
        Inr \<lparr>SlackTeam = ''T1'', Members = [mkUser ''Bob'' ''b@x.com'' False False]\<rparr>"
    by (simp add: upstream_Unmarshal store_listing startUserList_def)
  ultimately have h: "json_Unmarshal ?env (BodyBytes ?resp) ?st1 =
                      json_Unmarshal ?env (BodyBytes ?resp) startUserList"
    by (simp only:)
  from output_independent_of_previous_list [where env = ?env and cfg = exampleConfig
      and resp = ?resp and ?st1.0 = ?st1 and ?st2.0 = startUserList and w = newResponseWriter,
      THEN conjunct2, THEN conjunct1, rule_format, OF g h]
  show ?thesis .
qed

lemma fresh_list_is_rendered:
  "indexHandler (upstream (listing [mkUser ''Bob'' ''b@x.com'' False False]) exec_names)
       exampleConfig newResponseWriter
       \<lparr>SlackTeam = ''T1'', Members = [mkUser ''alice'' ''a@x.com'' False False]\<rparr> =
   Return \<lparr>status = Some 200, body = ''Bob;''\<rparr>
     \<lparr>SlackTeam = ''T1'', Members = [mkUser ''Bob'' ''b@x.com'' False False]\<rparr>
     [CallGet ''https://slack.com/api/users.list?token=xoxp'', CallReadAll,
      CallUnmarshal (documentText (listing [mkUser ''Bob'' ''b@x.com'' False False])),
      CallExecute \<lparr>SlackTeam = ''T1'', Members = [mkUser ''Bob'' ''b@x.com'' False False]\<rparr>]"
  by code_simp

text \<open>
  \<^verbatim>\<open>json.Unmarshal\<close> writes into the package variable, which holds the list that
  line 208 stored for the previous request. A first request renders alice and
  leaves her in the variable. To the next request upstream answers with the
  object \<^verbatim>\<open>{}\<close>, which sets no field: alice is on the page again. The same reply
  to a process that has served no request gives an empty page. Same reply, same
  configuration, different output.
\<close>

theorem stale_list_rendered_counterexample:
  "userlistAfter (indexHandler
       (upstream (listing [mkUser ''alice'' ''a@x.com'' False False]) exec_names)
       exampleConfig newResponseWriter startUserList)
     = Some \<lparr>SlackTeam = ''T1'', Members = [mkUser ''alice'' ''a@x.com'' False False]\<rparr>
   \<and> documentText (TopLevelObject None) = ''{}''
   \<and> response (indexHandler (upstream (TopLevelObject None) exec_names)
       exampleConfig newResponseWriter
       \<lparr>SlackTeam = ''T1'', Members = [mkUser ''alice'' ''a@x.com'' False False]\<rparr>)
     = Some \<lparr>status = Some 200, body = ''alice;''\<rparr>
   \<and> response (indexHandler (upstream (TopLevelObject None) exec_names)
       exampleConfig newResponseWriter startUserList)
     = Some \<lparr>status = None, body = []\<rparr>"
  by code_simp

text \<open>
  The same for single fields. Mallory's object has neither the key \<^verbatim>\<open>email\<close> nor
  \<^verbatim>\<open>deleted\<close>. Decoded into the element that held alice she has alice's email
  and passes the filter for \<^verbatim>\<open>x.com\<close>; decoded in a process that has served no
  request she has no email and is dropped.
\<close>

lemma stale_fields_rendered_example:
  "response (indexHandler
       (upstream (TopLevelObject (Some
          [\<lparr>name_key = Some ''mallory'', id_key = None, team_id_key = None, is_bot_key = None,
            deleted_key = None,
            profile_key = Some \<lparr>first_name_key = None, last_name_key = None,
              real_name_key = Some ''Mallory'', title_key = None, image_192_key = None,
              phone_key = None, email_key = None, status_text_key = None\<rparr>\<rparr>])) exec_names)
       (exampleConfig\<lparr>EmailFilter := ''x.com''\<rparr>) newResponseWriter
       \<lparr>SlackTeam = ''T1'', Members = [mkUser ''alice'' ''a@x.com'' False False]\<rparr>)
     = Some \<lparr>status = Some 200, body = ''Mallory;''\<rparr>
   \<and> response (indexHandler
       (upstream (TopLevelObject (Some
          [\<lparr>name_key = Some ''mallory'', id_key = None, team_id_key = None, is_bot_key = None,
            deleted_key = None,
            profile_key = Some \<lparr>first_name_key = None, last_name_key = None,
              real_name_key = Some ''Mallory'', title_key = None, image_192_key = None,
              phone_key = None, email_key = None, status_text_key = None\<rparr>\<rparr>])) exec_names)
       (exampleConfig\<lparr>EmailFilter := ''x.com''\<rparr>) newResponseWriter startUserList)
     = Some \<lparr>status = None, body = []\<rparr>"
  by code_simp

text \<open>
  C9. The filtered list is a subsequence of the input list: the retained members
  are the input records themselves, in the order they have in the input.
\<close>

theorem filter_is_subsequence:
  "subseq (filterLoop cfg ms []) ms"
  by (simp add: filterLoop_eq)

theorem filter_is_subsequence_witness:
  "subseq [mkUser ''Bob'' ''b@x.com'' False False, mkUser ''alice'' ''a@x.com'' False False]
     [mkUser ''Bob'' ''b@x.com'' False False, mkUser ''Hubot'' ''h@x.com'' True False,
      mkUser ''alice'' ''a@x.com'' False False]"
proof -
  have "filterLoop exampleConfig
          [mkUser ''Bob'' ''b@x.com'' False False, mkUser ''Hubot'' ''h@x.com'' True False,
           mkUser ''alice'' ''a@x.com'' False False] [] =
        [mkUser ''Bob'' ''b@x.com'' False False, mkUser ''alice'' ''a@x.com'' False False]"
    by code_simp
  with filter_is_subsequence [of exampleConfig
     "[mkUser ''Bob'' ''b@x.com'' False False, mkUser ''Hubot'' ''h@x.com'' True False,
       mkUser ''alice'' ''a@x.com'' False False]"]
  show ?thesis by (simp only:)
qed

text \<open>
  C10. The error of \<^verbatim>\<open>ioutil.ReadAll\<close> is discarded: with the same bytes read, the
  request ends the same way with a read error as without one. The bytes read are
  what \<^verbatim>\<open>json.Unmarshal\<close> gets: when it rejects them, the request ends in
  \<^verbatim>\<open>log.Fatal\<close> with its error, and when it accepts them, the template is run on
  what it decoded from them, filtered and sorted. The one message the handler can
  still send through \<^verbatim>\<open>http.Error\<close> is that of the template failure, not a fetch
  error.
\<close>

theorem read_error_is_discarded:
  "indexHandler (env\<lparr>client_Get := (client_Get env)
                    (users_list_url cfg := Inr (resp\<lparr>BodyErr := e\<rparr>))\<rparr>) cfg w st =
   indexHandler (env\<lparr>client_Get := (client_Get env)
                    (users_list_url cfg := Inr (resp\<lparr>BodyErr := None\<rparr>))\<rparr>) cfg w st
   \<and> (json_Unmarshal env (BodyBytes resp) st = Inl err \<longrightarrow>
        indexHandler (env\<lparr>client_Get := (client_Get env)
                    (users_list_url cfg := Inr (resp\<lparr>BodyErr := e\<rparr>))\<rparr>) cfg w st =
        Exit 1 w [CallGet (users_list_url cfg), CallReadAll, CallUnmarshal (BodyBytes resp),
                  CallFatal err])
   \<and> (json_Unmarshal env (BodyBytes resp) st = Inr decoded \<longrightarrow>
        userlistAfter (indexHandler (env\<lparr>client_Get := (client_Get env)
                    (users_list_url cfg := Inr (resp\<lparr>BodyErr := e\<rparr>))\<rparr>) cfg w st) =
          Some (templateData env cfg decoded)
      \<and> written (indexHandler (env\<lparr>client_Get := (client_Get env)
                    (users_list_url cfg := Inr (resp\<lparr>BodyErr := e\<rparr>))\<rparr>) cfg w st) =
          (case snd (template_Execute env (templateData env cfg decoded)) of
             Failed x \<Rightarrow>
               http_Error (foldl Write w (fst (template_Execute env (templateData env cfg decoded))))
                 oops_message 500
           | _ \<Rightarrow> foldl Write w (fst (template_Execute env (templateData env cfg decoded)))))
   \<and> (\<forall>msg code. CallError msg code \<in> set (calls (indexHandler
         (env\<lparr>client_Get := (client_Get env)
            (users_list_url cfg := Inr (resp\<lparr>BodyErr := e\<rparr>))\<rparr>) cfg w st)) \<longrightarrow>
        msg = oops_message)"
proof (intro conjI impI)
  let ?env = "env\<lparr>client_Get := (client_Get env)
                    (users_list_url cfg := Inr (resp\<lparr>BodyErr := e\<rparr>))\<rparr>"
  have g: "client_Get ?env (users_list_url cfg) = Inr (resp\<lparr>BodyErr := e\<rparr>)" by simp
  show "indexHandler ?env cfg w st =
        indexHandler (env\<lparr>client_Get := (client_Get env)
                    (users_list_url cfg := Inr (resp\<lparr>BodyErr := None\<rparr>))\<rparr>) cfg w st"
    by (simp add: indexHandler_def ReadAll_def Let_def split: sum.splits exec_end.splits)
  show "\<forall>msg code. CallError msg code \<in> set (calls (indexHandler ?env cfg w st)) \<longrightarrow>
        msg = oops_message"
    by (simp add: indexHandler_def ReadAll_def Let_def split: sum.splits exec_end.splits)
  {
    assume "json_Unmarshal env (BodyBytes resp) st = Inl err"
    then show "indexHandler ?env cfg w st =
        Exit 1 w [CallGet (users_list_url cfg), CallReadAll, CallUnmarshal (BodyBytes resp),
                  CallFatal err]"
      by (simp add: indexHandler_def ReadAll_def Let_def)
  }
  {
    assume u: "json_Unmarshal env (BodyBytes resp) st = Inr decoded"
    then have d: "json_Unmarshal ?env (BodyBytes (resp\<lparr>BodyErr := e\<rparr>)) st = Inr decoded"
      by simp
    show "userlistAfter (indexHandler ?env cfg w st) = Some (templateData env cfg decoded)"
      using userlistAfter_decoded [OF g d, of w] by simp
    show "written (indexHandler ?env cfg w st) =
          (case snd (template_Execute env (templateData env cfg decoded)) of
             Failed x \<Rightarrow>
               http_Error (foldl Write w (fst (template_Execute env (templateData env cfg decoded))))
                 oops_message 500
           | _ \<Rightarrow> foldl Write w (fst (template_Execute env (templateData env cfg decoded))))"
      using u by (simp add: indexHandler_def ReadAll_def Let_def StatusInternalServerError_def
          split: exec_end.splits)
  }
qed

text \<open>
  The connection breaks after five bytes of the body: the five bytes are decoded,
  and the request ends as the decoder decides, here in \<^verbatim>\<open>log.Fatal\<close>.
\<close>

theorem read_error_is_discarded_witness:
  "indexHandler
     (scripted (Inr \<lparr>StatusCode = 200, BodyBytes = ''{\"mem'', BodyErr = Some ''unexpected EOF''\<rparr>)
        (decode_docs [NotJSON ''{\"mem'' ''unexpected end of JSON input'']) exec_names)
     exampleConfig newResponseWriter startUserList =
   Exit 1 newResponseWriter
     [CallGet ''https://slack.com/api/users.list?token=xoxp'', CallReadAll,
      CallUnmarshal ''{\"mem'', CallFatal ''unexpected end of JSON input'']"
proof -
  let ?resp = "\<lparr>StatusCode = 200, BodyBytes = ''{\"mem'', BodyErr = Some ''unexpected EOF''\<rparr>"
  let ?env = "scripted (Inr ?resp)
                (decode_docs [NotJSON ''{\"mem'' ''unexpected end of JSON input'']) exec_names"
  have e: "?env\<lparr>client_Get := (client_Get ?env)
             (users_list_url exampleConfig := Inr (?resp\<lparr>BodyErr := Some ''unexpected EOF''\<rparr>))\<rparr>
           = ?env"
    by (simp add: scripted_def fun_eq_iff)
  have d: "json_Unmarshal ?env (BodyBytes ?resp) startUserList =
           Inl ''unexpected end of JSON input''"
    by (simp add: scripted_def decode_docs_def)
  from read_error_is_discarded [where env = ?env and cfg = exampleConfig and resp = ?resp
      and e = "Some ''unexpected EOF''" and w = newResponseWriter and st = startUserList
      and err = "''unexpected end of JSON input''",
      THEN conjunct2, THEN conjunct1, rule_format, OF d]
  show ?thesis
    unfolding e by (simp add: users_list_url_def exampleConfig_def)
qed

end
